theory Spec2Isabelle
  imports Complex_Main
begin

section \<open>The Leonardo API helper: data model\<close>

text \<open>
  The helper \<^verbatim>\<open>mdigitalartz_leonardo.ts\<close> has four exported asynchronous functions.
  Each builds one request (an object literal as payload, a URL, a header object), hands
  it to the HTTP client and returns \<^verbatim>\<open>response.data\<close>. There is no \<^verbatim>\<open>try\<close>/\<^verbatim>\<open>catch\<close>:
  a rejected promise of the HTTP client rejects the function's own promise with the
  same error value.

  A TypeScript \<^verbatim>\<open>number\<close> is a double. The helper does no arithmetic on its numeric
  parameters, it only stores them in the payload, so a number is modelled as a real or
  one of the three non-finite values: every double is among them.
\<close>

datatype number = Num real | NaN | PosInfinity | NegInfinity

text \<open>The values that occur as fields of the payload object literals.\<close>

datatype js_value = JNumber number | JString string | JBoolean bool

text \<open>
  An object literal is an association list: JavaScript keeps string keys in insertion
  order, and the order decides how the object is serialised.
\<close>

type_synonym js_object = "(string \<times> js_value) list"

datatype http_method = GET | POST

text \<open>
  What one call of \<^verbatim>\<open>axios.post(url, payload, {headers})\<close> or
  \<^verbatim>\<open>axios.get(url, {headers})\<close> asks the HTTP client to send.
\<close>

record http_request =
  verb :: http_method
  url :: string
  body :: "js_object option"
  headers :: "(string \<times> string) list"

text \<open>
  The resolved value of the HTTP client's promise; the helper reads its \<^verbatim>\<open>data\<close>
  field only. The decoded body is opaque to the helper (\<^verbatim>\<open>Promise<any>\<close>), hence the
  type parameter.
\<close>

record 'd response =
  status :: int
  data :: 'd

text \<open>
  The rejected value of the HTTP client's promise: an error that carries the response
  (status and decoded body) when the service answered, and only an error code when no
  answer arrived.
\<close>

datatype 'd failure = RequestFailure int 'd | TransportFailure string

text \<open>
  The HTTP client is a parameter of the model. It is effectful, so it takes the state
  of the world and returns the new one together with the settled promise: \<open>Inl\<close> is
  a rejection, \<open>Inr\<close> a resolution.
\<close>

type_synonym ('w, 'd) transport =
  "http_request \<Rightarrow> 'w \<Rightarrow> ('d failure + 'd response) \<times> 'w"

section \<open>Constants of the helper\<close>

definition API_KEY :: string where
  "API_KEY = ''cd8d7691-5ec5-48e1-9c6b-7160900f59a5''"

definition PHOENIX_MODEL_ID :: string where
  "PHOENIX_MODEL_ID = ''de7d3faf-762f-48e0-b3b7-9d0ac3a3fcf3''"

definition ANIME_XL_MODEL_ID :: string where
  "ANIME_XL_MODEL_ID = ''e71a1c2f-4f80-4800-934f-2c68979d8cc8''"

section \<open>The operations\<close>

text \<open>
  A parameter with a default value (\<^verbatim>\<open>width = 1216\<close>) takes the default when the
  caller omits the argument or passes \<^verbatim>\<open>undefined\<close>: the argument is an option.
\<close>

definition or_default :: "'a option \<Rightarrow> 'a \<Rightarrow> 'a" where
  "or_default arg d = (case arg of None \<Rightarrow> d | Some v \<Rightarrow> v)"

definition axios_post ::
  "('w, 'd) transport \<Rightarrow> string \<Rightarrow> js_object \<Rightarrow> (string \<times> string) list \<Rightarrow> 'w
    \<Rightarrow> ('d failure + 'd response) \<times> 'w" where
  "axios_post axios u payload hs w =
     axios \<lparr>verb = POST, url = u, body = Some payload, headers = hs\<rparr> w"

definition axios_get ::
  "('w, 'd) transport \<Rightarrow> string \<Rightarrow> (string \<times> string) list \<Rightarrow> 'w
    \<Rightarrow> ('d failure + 'd response) \<times> 'w" where
  "axios_get axios u hs w =
     axios \<lparr>verb = GET, url = u, body = None, headers = hs\<rparr> w"

definition generateImagesPhoenix ::
  "('w, 'd) transport \<Rightarrow> string \<Rightarrow> number option \<Rightarrow> number option \<Rightarrow> number option
    \<Rightarrow> number option \<Rightarrow> string option \<Rightarrow> bool option \<Rightarrow> 'w \<Rightarrow> ('d failure + 'd) \<times> 'w" where
  "generateImagesPhoenix axios prompt width height numImages contrast styleUUID alchemy w =
     (let width = or_default width (Num 1216);
          height = or_default height (Num 1520);
          numImages = or_default numImages (Num 4);
          contrast = or_default contrast (Num 3.5);
          styleUUID = or_default styleUUID ''a5632c7c-ddbb-4e2f-ba34-8456ab3ac436'';
          alchemy = or_default alchemy True;
          payload =
            [(''modelId'', JString PHOENIX_MODEL_ID),
             (''prompt'', JString prompt),
             (''width'', JNumber width),
             (''height'', JNumber height),
             (''num_images'', JNumber numImages),
             (''contrast'', JNumber contrast),
             (''alchemy'', JBoolean alchemy),
             (''styleUUID'', JString styleUUID)]
      in case axios_post axios ''https://cloud.leonardo.ai/api/rest/v1/generations'' payload
                [(''Authorization'', ''Bearer '' @ API_KEY),
                 (''Content-Type'', ''application/json'')] w of
           (Inl err, w') \<Rightarrow> (Inl err, w')
         | (Inr response, w') \<Rightarrow> (Inr (data response), w'))"

definition generateImagesAnimeXL ::
  "('w, 'd) transport \<Rightarrow> string \<Rightarrow> number option \<Rightarrow> number option \<Rightarrow> number option
    \<Rightarrow> string option \<Rightarrow> bool option \<Rightarrow> 'w \<Rightarrow> ('d failure + 'd) \<times> 'w" where
  "generateImagesAnimeXL axios prompt width height numImages presetStyle alchemy w =
     (let width = or_default width (Num 1216);
          height = or_default height (Num 1520);
          numImages = or_default numImages (Num 4);
          presetStyle = or_default presetStyle ''CINEMATIC'';
          alchemy = or_default alchemy True;
          payload =
            [(''modelId'', JString ANIME_XL_MODEL_ID),
             (''prompt'', JString prompt),
             (''width'', JNumber width),
             (''height'', JNumber height),
             (''num_images'', JNumber numImages),
             (''alchemy'', JBoolean alchemy),
             (''presetStyle'', JString presetStyle)]
      in case axios_post axios ''https://cloud.leonardo.ai/api/rest/v1/generations'' payload
                [(''Authorization'', ''Bearer '' @ API_KEY),
                 (''Content-Type'', ''application/json'')] w of
           (Inl err, w') \<Rightarrow> (Inl err, w')
         | (Inr response, w') \<Rightarrow> (Inr (data response), w'))"

definition fetchGeneration ::
  "('w, 'd) transport \<Rightarrow> string \<Rightarrow> 'w \<Rightarrow> ('d failure + 'd) \<times> 'w" where
  "fetchGeneration axios generationId w =
     (case axios_get axios (''https://cloud.leonardo.ai/api/rest/v1/generations/'' @ generationId)
             [(''Authorization'', ''Bearer '' @ API_KEY)] w of
        (Inl err, w') \<Rightarrow> (Inl err, w')
      | (Inr response, w') \<Rightarrow> (Inr (data response), w'))"

definition upscaleImage ::
  "('w, 'd) transport \<Rightarrow> string \<Rightarrow> number option \<Rightarrow> string option \<Rightarrow> number option
    \<Rightarrow> number option \<Rightarrow> number option \<Rightarrow> 'w \<Rightarrow> ('d failure + 'd) \<times> 'w" where
  "upscaleImage axios generatedImageId upscaleMultiplier ultraUpscaleStyle creativityStrength
       detailContrast similarity w =
     (let upscaleMultiplier = or_default upscaleMultiplier (Num 1.5);
          ultraUpscaleStyle = or_default ultraUpscaleStyle ''ARTISTIC'';
          creativityStrength = or_default creativityStrength (Num 5);
          detailContrast = or_default detailContrast (Num 5);
          similarity = or_default similarity (Num 5);
          payload =
            [(''ultraUpscaleStyle'', JString ultraUpscaleStyle),
             (''creativityStrength'', JNumber creativityStrength),
             (''detailContrast'', JNumber detailContrast),
             (''similarity'', JNumber similarity),
             (''upscaleMultiplier'', JNumber upscaleMultiplier),
             (''generatedImageId'', JString generatedImageId)]
      in case axios_post axios
                ''https://cloud.leonardo.ai/api/rest/v1/variations/universal-upscaler'' payload
                [(''Authorization'', ''Bearer '' @ API_KEY),
                 (''Content-Type'', ''application/json'')] w of
           (Inl err, w') \<Rightarrow> (Inl err, w')
         | (Inr response, w') \<Rightarrow> (Inr (data response), w'))"

section \<open>Observing the requests\<close>

text \<open>
  A transport whose world is the list of the requests sent so far. It appends every
  request it is given, and settles it with \<open>f\<close>, which may look at the request and at
  everything sent before: two calls need not be answered alike.
\<close>

definition recorder ::
  "(http_request \<Rightarrow> http_request list \<Rightarrow> 'd failure + 'd response)
    \<Rightarrow> (http_request list, 'd) transport" where
  "recorder f req sent = (f req sent, sent @ [req])"

text \<open>What a helper function returns for a settled promise of the HTTP client.\<close>

definition settled :: "'d failure + 'd response \<Rightarrow> 'd failure + 'd" where
  "settled r = (case r of Inl err \<Rightarrow> Inl err | Inr response \<Rightarrow> Inr (data response))"

text \<open>The keys of a request's payload, in order, and the value stored under one key.\<close>

definition payload_keys :: "http_request \<Rightarrow> string list" where
  "payload_keys req = (case body req of None \<Rightarrow> [] | Some payload \<Rightarrow> map fst payload)"

definition payload_field :: "string \<Rightarrow> http_request \<Rightarrow> js_value option" where
  "payload_field k req = (case body req of None \<Rightarrow> None | Some payload \<Rightarrow> map_of payload k)"

definition header :: "string \<Rightarrow> http_request \<Rightarrow> string option" where
  "header k req = map_of (headers req) k"

text \<open>
  The generic URI syntax (RFC 3986) ends the hierarchical part of a URL, which names
  the resource, at the first \<^verbatim>\<open>?\<close> or \<^verbatim>\<open>#\<close>; what follows is query and fragment.
\<close>

definition url_resource :: "string \<Rightarrow> string" where
  "url_resource u = takeWhile (\<lambda>c. c \<noteq> CHR ''?'' \<and> c \<noteq> CHR ''#'') u"

definition url_suffix :: "string \<Rightarrow> string" where
  "url_suffix u = dropWhile (\<lambda>c. c \<noteq> CHR ''?'' \<and> c \<noteq> CHR ''#'') u"

definition separators :: "string \<Rightarrow> nat" where
  "separators u = length (filter (\<lambda>c. c = CHR ''/'') u)"

section \<open>The HTTP client over a network\<close>

text \<open>What the network gives for one request: no answer at all, or a status and a body.\<close>

datatype 'd net_reply = NoReply string | HttpReply int 'd

text \<open>
  Modelled from the spec: the HTTP client itself (the axios library) is not among the
  repository's sources. The spec's error taxonomy says what it does with the network's
  answer: a request that could not reach the service is a TransportFailure, an answer
  with a non-success status is a RequestFailure that carries status and body, and an
  answer with a 2xx status is the response. The helper passes no option that would
  change this.
\<close>

definition axios_over ::
  "(http_request \<Rightarrow> 'w \<Rightarrow> 'd net_reply \<times> 'w) \<Rightarrow> ('w, 'd) transport" where
  "axios_over net req w =
     (case net req w of
        (NoReply code, w') \<Rightarrow> (Inl (TransportFailure code), w')
      | (HttpReply st b, w') \<Rightarrow>
          (if 200 \<le> st \<and> st < 300 then Inr \<lparr>status = st, data = b\<rparr>
           else Inl (RequestFailure st b), w'))"

section \<open>Each operation is one call of the HTTP client\<close>

lemma settle_pair:
  "(case p of (Inl err, w') \<Rightarrow> (Inl err, w') | (Inr response, w') \<Rightarrow> (Inr (data response), w')) =
     (settled (fst p), snd p)"
  by (simp add: settled_def split: prod.split sum.split)

lemma generateImagesPhoenix_call:
  "generateImagesPhoenix axios prompt width height numImages contrast styleUUID alchemy w =
     (let p = axios
        \<lparr>verb = POST,
         url = ''https://cloud.leonardo.ai/api/rest/v1/generations'',
         body = Some
           [(''modelId'', JString PHOENIX_MODEL_ID),
            (''prompt'', JString prompt),
            (''width'', JNumber (or_default width (Num 1216))),
            (''height'', JNumber (or_default height (Num 1520))),
            (''num_images'', JNumber (or_default numImages (Num 4))),
            (''contrast'', JNumber (or_default contrast (Num 3.5))),
            (''alchemy'', JBoolean (or_default alchemy True)),
            (''styleUUID'',
               JString (or_default styleUUID ''a5632c7c-ddbb-4e2f-ba34-8456ab3ac436''))],
         headers = [(''Authorization'', ''Bearer '' @ API_KEY),
                    (''Content-Type'', ''application/json'')]\<rparr> w
      in (settled (fst p), snd p))"
  unfolding generateImagesPhoenix_def axios_post_def Let_def settle_pair ..

lemma generateImagesAnimeXL_call:
  "generateImagesAnimeXL axios prompt width height numImages presetStyle alchemy w =
     (let p = axios
        \<lparr>verb = POST,
         url = ''https://cloud.leonardo.ai/api/rest/v1/generations'',
         body = Some
           [(''modelId'', JString ANIME_XL_MODEL_ID),
            (''prompt'', JString prompt),
            (''width'', JNumber (or_default width (Num 1216))),
            (''height'', JNumber (or_default height (Num 1520))),
            (''num_images'', JNumber (or_default numImages (Num 4))),
            (''alchemy'', JBoolean (or_default alchemy True)),
            (''presetStyle'', JString (or_default presetStyle ''CINEMATIC''))],
         headers = [(''Authorization'', ''Bearer '' @ API_KEY),
                    (''Content-Type'', ''application/json'')]\<rparr> w
      in (settled (fst p), snd p))"
  unfolding generateImagesAnimeXL_def axios_post_def Let_def settle_pair ..

lemma fetchGeneration_call:
  "fetchGeneration axios generationId w =
     (let p = axios
        \<lparr>verb = GET,
         url = ''https://cloud.leonardo.ai/api/rest/v1/generations/'' @ generationId,
         body = None,
         headers = [(''Authorization'', ''Bearer '' @ API_KEY)]\<rparr> w
      in (settled (fst p), snd p))"
  unfolding fetchGeneration_def axios_get_def Let_def settle_pair ..

lemma upscaleImage_call:
  "upscaleImage axios generatedImageId upscaleMultiplier ultraUpscaleStyle creativityStrength
       detailContrast similarity w =
     (let p = axios
        \<lparr>verb = POST,
         url = ''https://cloud.leonardo.ai/api/rest/v1/variations/universal-upscaler'',
         body = Some
           [(''ultraUpscaleStyle'', JString (or_default ultraUpscaleStyle ''ARTISTIC'')),
            (''creativityStrength'', JNumber (or_default creativityStrength (Num 5))),
            (''detailContrast'', JNumber (or_default detailContrast (Num 5))),
            (''similarity'', JNumber (or_default similarity (Num 5))),
            (''upscaleMultiplier'', JNumber (or_default upscaleMultiplier (Num 1.5))),
            (''generatedImageId'', JString generatedImageId)],
         headers = [(''Authorization'', ''Bearer '' @ API_KEY),
                    (''Content-Type'', ''application/json'')]\<rparr> w
      in (settled (fst p), snd p))"
  unfolding upscaleImage_def axios_post_def Let_def settle_pair ..

lemmas calls =
  generateImagesPhoenix_call generateImagesAnimeXL_call fetchGeneration_call upscaleImage_call

text \<open>
  A rejection of the HTTP client is the operation's result, and the two kinds of
  rejection as the HTTP client produces them from the network's answer.
\<close>

lemma rejection_passes:
  assumes "axios req w = (Inl err, w')"
  shows "(let p = axios req w in (settled (fst p), snd p)) = (Inl err, w')"
  using assms by (simp add: settled_def)

lemma axios_over_non_2xx:
  assumes "net req w = (HttpReply st b, w')" and "\<not> (200 \<le> st \<and> st < 300)"
  shows "axios_over net req w = (Inl (RequestFailure st b), w')"
  using assms by (simp add: axios_over_def)

lemma axios_over_no_reply:
  assumes "net req w = (NoReply code, w')"
  shows "axios_over net req w = (Inl (TransportFailure code), w')"
  using assms by (simp add: axios_over_def)

lemma non_2xx_result:
  assumes "net req w = (HttpReply st b, w')" and "\<not> (200 \<le> st \<and> st < 300)"
  shows "(let p = axios_over net req w in (settled (fst p), snd p)) =
    (Inl (RequestFailure st b), w')"
  using assms by (intro rejection_passes axios_over_non_2xx)

lemma no_reply_result:
  assumes "net req w = (NoReply code, w')"
  shows "(let p = axios_over net req w in (settled (fst p), snd p)) =
    (Inl (TransportFailure code), w')"
  using assms by (intro rejection_passes axios_over_no_reply)

text \<open>Two calls with the same request, seen by the recorder.\<close>

lemma recorder_twice:
  "snd (recorder g req (snd (recorder f req []))) = [req, req]"
  by (simp add: recorder_def)

text \<open>A prefix without \<^verbatim>\<open>?\<close> and \<^verbatim>\<open>#\<close> stays in front of the resource part of a URL.\<close>

lemma url_resource_append:
  assumes "CHR ''?'' \<notin> set base" and "CHR ''#'' \<notin> set base"
  shows "url_resource (base @ generationId) = base @ url_resource generationId"
    and "url_suffix (base @ generationId) = url_suffix generationId"
  using assms by (auto simp: url_resource_def url_suffix_def takeWhile_append dropWhile_append)

lemma separators_append: "separators (u @ v) = separators u + separators v"
  by (simp add: separators_def)

section \<open>Default-parameter invocations\<close>

text \<open>
  C2. For every prompt, generateImagesPhoenix called with the prompt only sends one
  request, whose payload is modelId (the Phoenix constant), prompt, width 1216,
  height 1520, num_images 4, contrast 3.5, alchemy true and styleUUID (the default
  style), in this order and with nothing else.
\<close>

theorem phoenix_default_payload:
  "map body (snd (generateImagesPhoenix (recorder f) prompt None None None None None None [])) =
     [Some [(''modelId'', JString PHOENIX_MODEL_ID),
            (''prompt'', JString prompt),
            (''width'', JNumber (Num 1216)),
            (''height'', JNumber (Num 1520)),
            (''num_images'', JNumber (Num 4)),
            (''contrast'', JNumber (Num 3.5)),
            (''alchemy'', JBoolean True),
            (''styleUUID'', JString ''a5632c7c-ddbb-4e2f-ba34-8456ab3ac436'')]]"
  by (simp add: generateImagesPhoenix_call recorder_def or_default_def)

text \<open>
  C3. For every prompt, generateImagesAnimeXL called with the prompt only sends one
  request, whose payload is modelId (the Anime XL constant), prompt, width 1216,
  height 1520, num_images 4, alchemy true and presetStyle CINEMATIC, in this order
  and with nothing else.
\<close>

theorem animexl_default_payload:
  "map body (snd (generateImagesAnimeXL (recorder f) prompt None None None None None [])) =
     [Some [(''modelId'', JString ANIME_XL_MODEL_ID),
            (''prompt'', JString prompt),
            (''width'', JNumber (Num 1216)),
            (''height'', JNumber (Num 1520)),
            (''num_images'', JNumber (Num 4)),
            (''alchemy'', JBoolean True),
            (''presetStyle'', JString ''CINEMATIC'')]]"
  by (simp add: generateImagesAnimeXL_call recorder_def or_default_def)

text \<open>
  C4. For every generatedImageId, upscaleImage called with the id only sends one
  request: a POST to the universal-upscaler endpoint whose payload is ultraUpscaleStyle
  ARTISTIC, creativityStrength 5, detailContrast 5, similarity 5, upscaleMultiplier 1.5
  and the given generatedImageId.
\<close>

theorem upscale_default_request:
  "map (\<lambda>req. (verb req, url req, body req))
       (snd (upscaleImage (recorder f) generatedImageId None None None None None [])) =
     [(POST, ''https://cloud.leonardo.ai/api/rest/v1/variations/universal-upscaler'',
       Some [(''ultraUpscaleStyle'', JString ''ARTISTIC''),
             (''creativityStrength'', JNumber (Num 5)),
             (''detailContrast'', JNumber (Num 5)),
             (''similarity'', JNumber (Num 5)),
             (''upscaleMultiplier'', JNumber (Num 1.5)),
             (''generatedImageId'', JString generatedImageId)])]"
  by (simp add: upscaleImage_call recorder_def or_default_def)

section \<open>The fields of a generation payload\<close>

text \<open>
  C1. For every input (prompt, width, height, numImages and the parameters of the
  variant, each given or omitted), the payload of the request that a generate operation
  sends has exactly the keys modelId, prompt, width, height, num_images, followed by
  contrast, alchemy, styleUUID for Phoenix and by alchemy, presetStyle for Anime XL,
  and its modelId is the model-identifier constant of the variant.
\<close>

theorem generate_payload_fields:
  "map payload_keys (snd (generateImagesPhoenix (recorder f) prompt width height numImages
       contrast styleUUID alchemy [])) =
     [[''modelId'', ''prompt'', ''width'', ''height'', ''num_images'',
       ''contrast'', ''alchemy'', ''styleUUID'']]
   \<and> map (payload_field ''modelId'') (snd (generateImagesPhoenix (recorder f) prompt width height
       numImages contrast styleUUID alchemy [])) = [Some (JString PHOENIX_MODEL_ID)]
   \<and> map payload_keys (snd (generateImagesAnimeXL (recorder g) prompt width height numImages
       presetStyle alchemy [])) =
     [[''modelId'', ''prompt'', ''width'', ''height'', ''num_images'',
       ''alchemy'', ''presetStyle'']]
   \<and> map (payload_field ''modelId'') (snd (generateImagesAnimeXL (recorder g) prompt width height
       numImages presetStyle alchemy [])) = [Some (JString ANIME_XL_MODEL_ID)]"
  by (simp add: generateImagesPhoenix_call generateImagesAnimeXL_call recorder_def
      payload_keys_def payload_field_def)

section \<open>Fetching a generation\<close>

text \<open>
  C5. For every generationId, fetchGeneration sends one request: a GET whose URL is the
  generations endpoint followed by the id (for abc123 it ends in /generations/abc123),
  with no body. When the HTTP client resolves with a response, the operation returns
  the response's decoded body as it is.
\<close>

theorem fetchGeneration_get:
  "snd (fetchGeneration (recorder f) generationId []) =
     [\<lparr>verb = GET,
       url = ''https://cloud.leonardo.ai/api/rest/v1/generations/'' @ generationId,
       body = None,
       headers = [(''Authorization'', ''Bearer '' @ API_KEY)]\<rparr>]
   \<and> map url (snd (fetchGeneration (recorder f) ''abc123'' [])) =
     [''https://cloud.leonardo.ai/api/rest/v1/generations/abc123'']
   \<and> fst (fetchGeneration (recorder (\<lambda>req sent. Inr \<lparr>status = st, data = d\<rparr>)) generationId [])
       = Inr d"
  by (simp add: fetchGeneration_call recorder_def settled_def)

text \<open>
  C10. The generationId is appended to the generations URL character by character,
  with no escaping. So the part of the URL that names the resource ends where the id
  has its first \<^verbatim>\<open>?\<close> or \<^verbatim>\<open>#\<close>, the rest of the id is the URL's query and fragment, and
  every \<^verbatim>\<open>/\<close> of the id before that point is one more path separator of the URL.
\<close>

theorem generationId_spliced_raw:
  "map url (snd (fetchGeneration (recorder f) generationId [])) =
     [''https://cloud.leonardo.ai/api/rest/v1/generations/'' @ generationId]
   \<and> map (url_resource \<circ> url) (snd (fetchGeneration (recorder f) generationId [])) =
     [''https://cloud.leonardo.ai/api/rest/v1/generations/'' @ url_resource generationId]
   \<and> map (url_suffix \<circ> url) (snd (fetchGeneration (recorder f) generationId [])) =
     [url_suffix generationId]
   \<and> map (separators \<circ> url_resource \<circ> url) (snd (fetchGeneration (recorder f) generationId [])) =
     [7 + separators (url_resource generationId)]"
proof -
  let ?base = "''https://cloud.leonardo.ai/api/rest/v1/generations/''"
  obtain req where one: "snd (fetchGeneration (recorder f) generationId []) = [req]"
    and target: "url req = ?base @ generationId"
    by (simp add: fetchGeneration_call recorder_def)
  have plain: "CHR ''?'' \<notin> set ?base" "CHR ''#'' \<notin> set ?base"
    by simp_all
  have seven: "separators ?base = 7"
    by (simp add: separators_def)
  show ?thesis
    unfolding one
    by (simp only: list.map comp_apply target url_resource_append [OF plain]
        separators_append seven simp_thms)
qed

section \<open>Failures\<close>

text \<open>
  C6. For every operation and every network: when the service answers the request that
  the operation sends with a status outside 200..299, the operation ends in the
  RequestFailure that carries this status and this body; when that request gets no
  answer, the operation ends in the TransportFailure of the connection error, which is a
  different value from any RequestFailure. Only the answer to the operation's own
  request in the caller's world is assumed. In both cases the world is the one left by
  that single network call: nothing else is sent, nothing is sent again, and the
  failure is the HTTP client's own.
\<close>

theorem failures_propagate:
  "(let req = \<lparr>verb = POST,
               url = ''https://cloud.leonardo.ai/api/rest/v1/generations'',
               body = Some [(''modelId'', JString PHOENIX_MODEL_ID),
                            (''prompt'', JString prompt),
                            (''width'', JNumber (or_default width (Num 1216))),
                            (''height'', JNumber (or_default height (Num 1520))),
                            (''num_images'', JNumber (or_default numImages (Num 4))),
                            (''contrast'', JNumber (or_default contrast (Num 3.5))),
                            (''alchemy'', JBoolean (or_default alchemy True)),
                            (''styleUUID'', JString (or_default styleUUID
                               ''a5632c7c-ddbb-4e2f-ba34-8456ab3ac436''))],
               headers = [(''Authorization'', ''Bearer '' @ API_KEY),
                          (''Content-Type'', ''application/json'')]\<rparr>
    in (net req w = (HttpReply st b, w') \<and> \<not> (200 \<le> st \<and> st < 300) \<longrightarrow>
          generateImagesPhoenix (axios_over net) prompt width height numImages contrast
            styleUUID alchemy w = (Inl (RequestFailure st b), w'))
     \<and> (net req w = (NoReply code, w') \<longrightarrow>
          generateImagesPhoenix (axios_over net) prompt width height numImages contrast
            styleUUID alchemy w = (Inl (TransportFailure code), w')))
   \<and> (let req = \<lparr>verb = POST,
               url = ''https://cloud.leonardo.ai/api/rest/v1/generations'',
               body = Some [(''modelId'', JString ANIME_XL_MODEL_ID),
                            (''prompt'', JString prompt),
                            (''width'', JNumber (or_default width (Num 1216))),
                            (''height'', JNumber (or_default height (Num 1520))),
                            (''num_images'', JNumber (or_default numImages (Num 4))),
                            (''alchemy'', JBoolean (or_default alchemy True)),
                            (''presetStyle'', JString (or_default presetStyle ''CINEMATIC''))],
               headers = [(''Authorization'', ''Bearer '' @ API_KEY),
                          (''Content-Type'', ''application/json'')]\<rparr>
    in (net req w = (HttpReply st b, w') \<and> \<not> (200 \<le> st \<and> st < 300) \<longrightarrow>
          generateImagesAnimeXL (axios_over net) prompt width height numImages presetStyle
            alchemy w = (Inl (RequestFailure st b), w'))
     \<and> (net req w = (NoReply code, w') \<longrightarrow>
          generateImagesAnimeXL (axios_over net) prompt width height numImages presetStyle
            alchemy w = (Inl (TransportFailure code), w')))
   \<and> (let req = \<lparr>verb = GET,
               url = ''https://cloud.leonardo.ai/api/rest/v1/generations/'' @ generationId,
               body = None,
               headers = [(''Authorization'', ''Bearer '' @ API_KEY)]\<rparr>
    in (net req w = (HttpReply st b, w') \<and> \<not> (200 \<le> st \<and> st < 300) \<longrightarrow>
          fetchGeneration (axios_over net) generationId w = (Inl (RequestFailure st b), w'))
     \<and> (net req w = (NoReply code, w') \<longrightarrow>
          fetchGeneration (axios_over net) generationId w = (Inl (TransportFailure code), w')))
   \<and> (let req = \<lparr>verb = POST,
               url = ''https://cloud.leonardo.ai/api/rest/v1/variations/universal-upscaler'',
               body = Some [(''ultraUpscaleStyle'',
                               JString (or_default ultraUpscaleStyle ''ARTISTIC'')),
                            (''creativityStrength'',
                               JNumber (or_default creativityStrength (Num 5))),
                            (''detailContrast'', JNumber (or_default detailContrast (Num 5))),
                            (''similarity'', JNumber (or_default similarity (Num 5))),
                            (''upscaleMultiplier'',
                               JNumber (or_default upscaleMultiplier (Num 1.5))),
                            (''generatedImageId'', JString generatedImageId)],
               headers = [(''Authorization'', ''Bearer '' @ API_KEY),
                          (''Content-Type'', ''application/json'')]\<rparr>
    in (net req w = (HttpReply st b, w') \<and> \<not> (200 \<le> st \<and> st < 300) \<longrightarrow>
          upscaleImage (axios_over net) generatedImageId upscaleMultiplier ultraUpscaleStyle
            creativityStrength detailContrast similarity w = (Inl (RequestFailure st b), w'))
     \<and> (net req w = (NoReply code, w') \<longrightarrow>
          upscaleImage (axios_over net) generatedImageId upscaleMultiplier ultraUpscaleStyle
            creativityStrength detailContrast similarity w = (Inl (TransportFailure code), w')))
   \<and> RequestFailure st b \<noteq> TransportFailure code"
proof -
  have rejected:
    "(net req w = (HttpReply st b, w') \<and> \<not> (200 \<le> st \<and> st < 300) \<longrightarrow>
        (settled (fst (axios_over net req w)), snd (axios_over net req w)) =
          (Inl (RequestFailure st b), w'))
     \<and> (net req w = (NoReply code, w') \<longrightarrow>
        (settled (fst (axios_over net req w)), snd (axios_over net req w)) =
          (Inl (TransportFailure code), w'))" for req
    using non_2xx_result [of net req w st b w'] no_reply_result [of net req w code w']
    unfolding Let_def by blast
  have distinct: "RequestFailure st b \<noteq> TransportFailure code"
    by simp
  show ?thesis
    unfolding calls Let_def
    by (intro conjI distinct rejected)
qed

theorem failures_propagate_witness:
  "generateImagesPhoenix
      (axios_over (\<lambda>req n. if url req = ''https://cloud.leonardo.ai/api/rest/v1/me''
         then (HttpReply 200 ''ok'', Suc n) else (HttpReply 404 ''not found'', Suc n)))
      ''a cat'' None None None None None None (0::nat)
     = (Inl (RequestFailure 404 ''not found''), Suc 0)
   \<and> generateImagesAnimeXL
      (axios_over (\<lambda>req n. if url req = ''https://cloud.leonardo.ai/api/rest/v1/me''
         then (HttpReply 200 ''ok'', Suc n) else (HttpReply 404 ''not found'', Suc n)))
      ''a cat'' None None None None None (0::nat)
     = (Inl (RequestFailure 404 ''not found''), Suc 0)
   \<and> fetchGeneration
      (axios_over (\<lambda>req n. if url req = ''https://cloud.leonardo.ai/api/rest/v1/me''
         then (HttpReply 200 ''ok'', Suc n) else (HttpReply 404 ''not found'', Suc n)))
      ''abc123'' (0::nat)
     = (Inl (RequestFailure 404 ''not found''), Suc 0)
   \<and> upscaleImage
      (axios_over (\<lambda>req n. if url req = ''https://cloud.leonardo.ai/api/rest/v1/me''
         then (HttpReply 200 ''ok'', Suc n) else (HttpReply 404 ''not found'', Suc n)))
      ''img1'' None None None None None (0::nat)
     = (Inl (RequestFailure 404 ''not found''), Suc 0)
   \<and> generateImagesPhoenix
      (axios_over (\<lambda>req n. (NoReply ''ECONNREFUSED'' :: string net_reply, Suc n)))
      ''a cat'' None None None None None None (0::nat)
     = (Inl (TransportFailure ''ECONNREFUSED''), Suc 0)
   \<and> generateImagesAnimeXL
      (axios_over (\<lambda>req n. (NoReply ''ECONNREFUSED'' :: string net_reply, Suc n)))
      ''a cat'' None None None None None (0::nat)
     = (Inl (TransportFailure ''ECONNREFUSED''), Suc 0)
   \<and> fetchGeneration
      (axios_over (\<lambda>req n. (NoReply ''ECONNREFUSED'' :: string net_reply, Suc n)))
      ''abc123'' (0::nat)
     = (Inl (TransportFailure ''ECONNREFUSED''), Suc 0)
   \<and> upscaleImage
      (axios_over (\<lambda>req n. (NoReply ''ECONNREFUSED'' :: string net_reply, Suc n)))
      ''img1'' None None None None None (0::nat)
     = (Inl (TransportFailure ''ECONNREFUSED''), Suc 0)"
  using failures_propagate [where
      net = "\<lambda>req n. if url req = ''https://cloud.leonardo.ai/api/rest/v1/me''
         then (HttpReply 200 ''ok'', Suc n) else (HttpReply 404 ''not found'', Suc n)"
      and w = "0::nat" and w' = "Suc 0" and st = 404 and b = "''not found''"
      and prompt = "''a cat''" and width = None and height = None and numImages = None
      and contrast = None and styleUUID = None and alchemy = None and presetStyle = None
      and generationId = "''abc123''" and generatedImageId = "''img1''"
      and upscaleMultiplier = None and ultraUpscaleStyle = None and creativityStrength = None
      and detailContrast = None and similarity = None]
    failures_propagate [where
      net = "\<lambda>req n. (NoReply ''ECONNREFUSED'' :: string net_reply, Suc n)"
      and w = "0::nat" and w' = "Suc 0" and code = "''ECONNREFUSED''"
      and prompt = "''a cat''" and width = None and height = None and numImages = None
      and contrast = None and styleUUID = None and alchemy = None and presetStyle = None
      and generationId = "''abc123''" and generatedImageId = "''img1''"
      and upscaleMultiplier = None and ultraUpscaleStyle = None and creativityStrength = None
      and detailContrast = None and similarity = None]
  by (simp add: Let_def)

text \<open>
  C7. Whatever the caller passes (any numbers, also non-finite ones, any strings, each
  optional argument given or omitted), every operation sends its one request, and the
  payload holds each given value as it is and the default for each omitted one. The
  result is the settled result of that request: no error is raised before the call,
  and a failure can only be one the HTTP client reports.
\<close>

theorem values_sent_as_given:
  "(let req = \<lparr>verb = POST,
               url = ''https://cloud.leonardo.ai/api/rest/v1/generations'',
               body = Some [(''modelId'', JString PHOENIX_MODEL_ID),
                            (''prompt'', JString prompt),
                            (''width'', JNumber (or_default width (Num 1216))),
                            (''height'', JNumber (or_default height (Num 1520))),
                            (''num_images'', JNumber (or_default numImages (Num 4))),
                            (''contrast'', JNumber (or_default contrast (Num 3.5))),
                            (''alchemy'', JBoolean (or_default alchemy True)),
                            (''styleUUID'', JString (or_default styleUUID
                               ''a5632c7c-ddbb-4e2f-ba34-8456ab3ac436''))],
               headers = [(''Authorization'', ''Bearer '' @ API_KEY),
                          (''Content-Type'', ''application/json'')]\<rparr>
    in generateImagesPhoenix (recorder f) prompt width height numImages contrast styleUUID
         alchemy sent =
       (settled (f req sent), sent @ [req]))
   \<and> (let req = \<lparr>verb = POST,
               url = ''https://cloud.leonardo.ai/api/rest/v1/generations'',
               body = Some [(''modelId'', JString ANIME_XL_MODEL_ID),
                            (''prompt'', JString prompt),
                            (''width'', JNumber (or_default width (Num 1216))),
                            (''height'', JNumber (or_default height (Num 1520))),
                            (''num_images'', JNumber (or_default numImages (Num 4))),
                            (''alchemy'', JBoolean (or_default alchemy True)),
                            (''presetStyle'', JString (or_default presetStyle ''CINEMATIC''))],
               headers = [(''Authorization'', ''Bearer '' @ API_KEY),
                          (''Content-Type'', ''application/json'')]\<rparr>
    in generateImagesAnimeXL (recorder f) prompt width height numImages presetStyle alchemy
         sent =
       (settled (f req sent), sent @ [req]))
   \<and> (let req = \<lparr>verb = GET,
               url = ''https://cloud.leonardo.ai/api/rest/v1/generations/'' @ generationId,
               body = None,
               headers = [(''Authorization'', ''Bearer '' @ API_KEY)]\<rparr>
    in fetchGeneration (recorder f) generationId sent =
       (settled (f req sent), sent @ [req]))
   \<and> (let req = \<lparr>verb = POST,
               url = ''https://cloud.leonardo.ai/api/rest/v1/variations/universal-upscaler'',
               body = Some [(''ultraUpscaleStyle'',
                               JString (or_default ultraUpscaleStyle ''ARTISTIC'')),
                            (''creativityStrength'',
                               JNumber (or_default creativityStrength (Num 5))),
                            (''detailContrast'', JNumber (or_default detailContrast (Num 5))),
                            (''similarity'', JNumber (or_default similarity (Num 5))),
                            (''upscaleMultiplier'',
                               JNumber (or_default upscaleMultiplier (Num 1.5))),
                            (''generatedImageId'', JString generatedImageId)],
               headers = [(''Authorization'', ''Bearer '' @ API_KEY),
                          (''Content-Type'', ''application/json'')]\<rparr>
    in upscaleImage (recorder f) generatedImageId upscaleMultiplier ultraUpscaleStyle
         creativityStrength detailContrast similarity sent =
       (settled (f req sent), sent @ [req]))
   \<and> or_default (Some v) d = v
   \<and> or_default None d = d"
proof -
  have recorded: "(let p = recorder f req sent in (settled (fst p), snd p)) =
      (settled (f req sent), sent @ [req])" for req
    by (simp add: recorder_def)
  have given: "or_default (Some v) d = v" and omitted: "or_default None d = d"
    by (simp_all add: or_default_def)
  show ?thesis
    unfolding calls recorded
    by (simp only: Let_def given omitted simp_thms)
qed

section \<open>Repeated calls\<close>

text \<open>
  C8. Calling an operation twice with the same arguments sends two requests that are
  equal in every part, the payload included, however the first call was answered
  (\<open>f\<close>) and however the second will be (\<open>g\<close>): nothing that varies from call to call
  enters a request.
\<close>

theorem repeated_call_same_request:
  "(\<exists>req. snd (generateImagesPhoenix (recorder g) prompt width height numImages contrast
        styleUUID alchemy
        (snd (generateImagesPhoenix (recorder f) prompt width height numImages contrast
           styleUUID alchemy []))) = [req, req])
   \<and> (\<exists>req. snd (generateImagesAnimeXL (recorder g) prompt width height numImages presetStyle
        alchemy
        (snd (generateImagesAnimeXL (recorder f) prompt width height numImages presetStyle
           alchemy []))) = [req, req])
   \<and> (\<exists>req. snd (fetchGeneration (recorder g) generationId
        (snd (fetchGeneration (recorder f) generationId []))) = [req, req])
   \<and> (\<exists>req. snd (upscaleImage (recorder g) generatedImageId upscaleMultiplier
        ultraUpscaleStyle creativityStrength detailContrast similarity
        (snd (upscaleImage (recorder f) generatedImageId upscaleMultiplier
           ultraUpscaleStyle creativityStrength detailContrast similarity []))) = [req, req])"
proof (intro conjI)
  show "\<exists>req. snd (generateImagesPhoenix (recorder g) prompt width height numImages contrast
        styleUUID alchemy
        (snd (generateImagesPhoenix (recorder f) prompt width height numImages contrast
           styleUUID alchemy []))) = [req, req]"
    unfolding generateImagesPhoenix_call Let_def snd_conv by (rule exI) (rule recorder_twice)
  show "\<exists>req. snd (generateImagesAnimeXL (recorder g) prompt width height numImages presetStyle
        alchemy
        (snd (generateImagesAnimeXL (recorder f) prompt width height numImages presetStyle
           alchemy []))) = [req, req]"
    unfolding generateImagesAnimeXL_call Let_def snd_conv by (rule exI) (rule recorder_twice)
  show "\<exists>req. snd (fetchGeneration (recorder g) generationId
        (snd (fetchGeneration (recorder f) generationId []))) = [req, req]"
    unfolding fetchGeneration_call Let_def snd_conv by (rule exI) (rule recorder_twice)
  show "\<exists>req. snd (upscaleImage (recorder g) generatedImageId upscaleMultiplier
        ultraUpscaleStyle creativityStrength detailContrast similarity
        (snd (upscaleImage (recorder f) generatedImageId upscaleMultiplier
           ultraUpscaleStyle creativityStrength detailContrast similarity []))) = [req, req]"
    unfolding upscaleImage_call Let_def snd_conv by (rule exI) (rule recorder_twice)
qed

section \<open>The credential\<close>

text \<open>
  C9 does not hold as stated. The Authorization header of the request sent by
  \<^verbatim>\<open>fetchGeneration("abc123")\<close> is the word Bearer followed by a string literal of the
  source: the token does not come from a configuration or secrets provider.
\<close>

theorem authorization_literal_counterexample:
  "map (header ''Authorization'')
     (snd (fetchGeneration
        (recorder (\<lambda>req sent. Inl (TransportFailure ''ECONNREFUSED'') :: string failure + string response))
        ''abc123'' [])) =
   [Some ''Bearer cd8d7691-5ec5-48e1-9c6b-7160900f59a5'']"
  by (simp add: fetchGeneration_call recorder_def header_def API_KEY_def)

text \<open>
  C9, as the code has it. The bearer token is the constant \<^verbatim>\<open>API_KEY\<close>, a string literal
  of the source: for every operation and every input, the Authorization header of the
  request is the word Bearer followed by this constant.
\<close>

theorem authorization_is_embedded_key:
  "API_KEY = ''cd8d7691-5ec5-48e1-9c6b-7160900f59a5''
   \<and> map (header ''Authorization'') (snd (generateImagesPhoenix (recorder f) prompt width height
        numImages contrast styleUUID alchemy [])) = [Some (''Bearer '' @ API_KEY)]
   \<and> map (header ''Authorization'') (snd (generateImagesAnimeXL (recorder f) prompt width height
        numImages presetStyle alchemy [])) = [Some (''Bearer '' @ API_KEY)]
   \<and> map (header ''Authorization'') (snd (fetchGeneration (recorder f) generationId []))
        = [Some (''Bearer '' @ API_KEY)]
   \<and> map (header ''Authorization'') (snd (upscaleImage (recorder f) generatedImageId
        upscaleMultiplier ultraUpscaleStyle creativityStrength detailContrast similarity []))
        = [Some (''Bearer '' @ API_KEY)]"
  by (simp add: calls recorder_def header_def Let_def API_KEY_def)

end
